theory Spec2Isabelle
  imports Main
begin

section \<open>Python values\<close>

text \<open>
  A Python \<open>str\<close> is a sequence of Unicode code points, so a string is a list of code
  points here (a \<open>char\<close> of HOL is one byte only, and the source holds literals beyond
  ASCII). \<open>u\<close> turns an ASCII literal into such a string.
\<close>

type_synonym ustring = "nat list"

abbreviation u :: "string \<Rightarrow> ustring" where
  "u s \<equiv> map of_char s"

text \<open>
  The values that the host application, the trigger globals and \<open>json.loads\<close> hand to
  the script: \<open>None\<close>, booleans, integers, strings, lists, and dictionaries with string
  keys (in insertion order, keys distinct). Floats are left out.
\<close>

datatype pyval = PNone | PBool bool | PInt int | PStr ustring
  | PList "pyval list" | PDict "(ustring \<times> pyval) list"

text \<open>An exception caught by \<open>except Exception\<close>; it carries what \<open>str(e)\<close> gives.\<close>

datatype exn = Exn ustring

text \<open>\<open>bool(v)\<close>, the test of \<open>if v:\<close>, \<open>v or w\<close>.\<close>

fun truthy :: "pyval \<Rightarrow> bool" where
  "truthy PNone = False"
| "truthy (PBool b) = b"
| "truthy (PInt i) = (i \<noteq> 0)"
| "truthy (PStr s) = (s \<noteq> [])"
| "truthy (PList xs) = (xs \<noteq> [])"
| "truthy (PDict kvs) = (kvs \<noteq> [])"

definition py_or :: "pyval \<Rightarrow> pyval \<Rightarrow> pyval" where
  "py_or a b = (if truthy a then a else b)"

text \<open>\<open>sep.join(parts)\<close>\<close>

fun join_sep :: "ustring \<Rightarrow> ustring list \<Rightarrow> ustring" where
  "join_sep sep [] = []"
| "join_sep sep [p] = p"
| "join_sep sep (p # q # ps) = p @ sep @ join_sep sep (q # ps)"

text \<open>The decimal digits of a natural number, as \<open>str\<close> of an \<open>int\<close> prints them.\<close>

fun digits :: "nat \<Rightarrow> ustring" where
  "digits n = (if n < 10 then [48 + n] else digits (n div 10) @ [48 + n mod 10])"

declare digits.simps [simp del]

text \<open>
  \<open>repr(v)\<close> and \<open>str(v)\<close>. The \<open>repr\<close> of a string (its quotes and escapes) depends on
  the Unicode database of the interpreter; it is the parameter \<open>rs\<close>.
\<close>

fun py_repr :: "(ustring \<Rightarrow> ustring) \<Rightarrow> pyval \<Rightarrow> ustring" where
  "py_repr rs PNone = u ''None''"
| "py_repr rs (PBool b) = (if b then u ''True'' else u ''False'')"
| "py_repr rs (PInt i) = (if i < 0 then u ''-'' @ digits (nat (- i)) else digits (nat i))"
| "py_repr rs (PStr s) = rs s"
| "py_repr rs (PList xs) = u ''['' @ join_sep (u '', '') (map (py_repr rs) xs) @ u '']''"
| "py_repr rs (PDict kvs) =
     u ''{'' @ join_sep (u '', '')
       (map (\<lambda>kv. rs (fst kv) @ u '': '' @ py_repr rs (snd kv)) kvs) @ u ''}''"

definition py_str :: "(ustring \<Rightarrow> ustring) \<Rightarrow> pyval \<Rightarrow> ustring" where
  "py_str rs v = (case v of PStr s \<Rightarrow> s | _ \<Rightarrow> py_repr rs v)"

text \<open>
  \<open>str.strip()\<close> removes the characters for which \<open>str.isspace\<close> holds from both ends.
\<close>

definition is_space :: "nat \<Rightarrow> bool" where
  "is_space c = ((9 \<le> c \<and> c \<le> 13) \<or> (28 \<le> c \<and> c \<le> 32) \<or> c = 0x85 \<or> c = 0xA0
     \<or> c = 0x1680 \<or> (0x2000 \<le> c \<and> c \<le> 0x200A) \<or> c = 0x2028 \<or> c = 0x2029
     \<or> c = 0x202F \<or> c = 0x205F \<or> c = 0x3000)"

definition strip :: "ustring \<Rightarrow> ustring" where
  "strip s = rev (dropWhile is_space (rev (dropWhile is_space s)))"

text \<open>\<open>d.get(key)\<close> on a dictionary: \<open>None\<close> when the key is absent.\<close>

definition dict_get :: "(ustring \<times> pyval) list \<Rightarrow> ustring \<Rightarrow> pyval" where
  "dict_get kvs k = (case map_of kvs k of None \<Rightarrow> PNone | Some v \<Rightarrow> v)"

section \<open>The message builder\<close>

text \<open>\<open>pick_status(status_global, detailed_status)\<close>\<close>

definition pick_status :: "(ustring \<Rightarrow> ustring) \<Rightarrow> pyval \<Rightarrow> pyval \<Rightarrow> ustring" where
  "pick_status rs status_global detailed_status =
     (if truthy status_global then py_str rs status_global
      else
        let found =
          (case detailed_status of
             PDict d \<Rightarrow>
               (let s = py_or (dict_get d (u ''Status'')) (dict_get d (u ''status''))
                in if truthy s then Some (py_str rs s) else None)
           | _ \<Rightarrow> None)
        in case found of
             Some r \<Rightarrow> r
           | None \<Rightarrow>
               if truthy detailed_status then py_str rs detailed_status
               else u ''Unknown'')"

text \<open>
  The literal of \<open>parts.append(f"... {outname}")\<close> as the source file holds it: the three
  code points U+00E2, U+2020, U+2019 and a space (the file is UTF-8, and these are the
  bytes of an arrow U+2192 read as Windows-1252 and encoded again).
\<close>

definition outname_prefix :: ustring where
  "outname_prefix = [0xE2, 0x2020, 0x2019, 32]"

text \<open>
  \<open>build_slack_message(project_name, status_global, error_global, job_details,
  detailed_status)\<close>
\<close>

definition build_slack_message ::
  "(ustring \<Rightarrow> ustring) \<Rightarrow> pyval \<Rightarrow> pyval \<Rightarrow> pyval \<Rightarrow> pyval \<Rightarrow> pyval \<Rightarrow> ustring" where
  "build_slack_message rs project_name status_global error_global job_details detailed_status =
     (let st = pick_status rs status_global detailed_status;
          timeline =
            (case job_details of
               PDict jd \<Rightarrow>
                 py_or (py_or (dict_get jd (u ''TimelineName'')) (dict_get jd (u ''Timeline''))) PNone
             | _ \<Rightarrow> PNone);
          outname =
            (case job_details of
               PDict jd \<Rightarrow>
                 py_or (py_or (py_or (dict_get jd (u ''OutputFilename''))
                                     (dict_get jd (u ''FileName'')))
                              (dict_get jd (u ''CustomName''))) PNone
             | _ \<Rightarrow> PNone);
          parts = [st]
            @ (if truthy project_name then [u ''['' @ py_str rs project_name @ u '']''] else [])
            @ (if truthy timeline then [py_str rs timeline] else [])
            @ (if truthy outname then [outname_prefix @ py_str rs outname] else [])
            @ (if truthy error_global
               then [u ''(Error: '' @ strip (py_str rs error_global) @ u '')''] else [])
      in join_sep (u '' '') parts)"

section \<open>Paths\<close>

text \<open>\<open>os.path.join(a, b)\<close> and \<open>os.path.dirname(p)\<close> of \<open>posixpath\<close>; 47 is the slash.\<close>

definition path_join :: "ustring \<Rightarrow> ustring \<Rightarrow> ustring" where
  "path_join a b =
     (if b \<noteq> [] \<and> hd b = 47 then b
      else if a = [] \<or> last a = 47 then a @ b
      else a @ [47] @ b)"

definition dirname :: "ustring \<Rightarrow> ustring" where
  "dirname p =
     (let head = rev (dropWhile (\<lambda>c. c \<noteq> 47) (rev p))
      in if head \<noteq> [] \<and> \<not> list_all (\<lambda>c. c = 47) head
         then rev (dropWhile (\<lambda>c. c = 47) (rev head))
         else head)"

section \<open>The world outside the script, and the script's state\<close>

text \<open>
  What the body of the \<open>try\<close> around \<open>client.chat_postMessage\<close> does: it reaches
  \<open>resp.get("ok", True)\<close> with the acknowledgement field (\<open>None\<close> when the response has
  none), or a \<open>SlackApiError\<close> is raised (then \<open>e.response.get("error")\<close> gives a value,
  \<open>Inr\<close>, or raises in turn and \<open>str(e)\<close> is taken, \<open>Inl\<close>), or another exception is
  raised.
\<close>

datatype post_outcome =
    Returned "pyval option"
  | RaisedSlackApiError "ustring + pyval"
  | RaisedException exn

text \<open>
  Everything the script asks of its surroundings, one field for each call: the file
  system and \<open>json\<close>, the clock, the interpreter and \<open>pip\<close>, the host application, the
  Slack client and \<open>osascript\<close>. \<open>None\<close> in an \<open>exn option\<close> is a call that returns.
\<close>

record world =
  repr_str :: "ustring \<Rightarrow> ustring"
  SCRIPT_DIR :: ustring
  LOG_DATE :: ustring
  makedirs :: "ustring \<Rightarrow> exn option"
  open_write :: "ustring \<Rightarrow> exn option"
  open_read :: "ustring \<Rightarrow> exn option"
  json_dump :: "pyval \<Rightarrow> ustring"
  json_loads :: "ustring \<Rightarrow> exn + pyval"
  expanduser :: "ustring \<Rightarrow> ustring"
  date_str :: ustring
  isdir :: "ustring \<Rightarrow> bool"
  import_slack_sdk :: "exn option"
  sys_executable :: ustring
  pip_install :: "exn + (ustring \<times> ustring \<times> int)"
  import_slack_sdk_again :: "exn option"
  python_version :: ustring
  gethostname :: "exn + ustring"
  platform_platform :: "exn + ustring"
  job_global :: pyval
  status_global :: pyval
  error_global :: pyval
  resolve_global :: bool
  scriptapp :: "exn + bool"
  GetProjectManager :: "exn + bool"
  GetCurrentProject :: "exn + bool"
  GetName :: "exn + pyval"
  GetRenderJobList :: "exn + pyval list option"
  GetRenderJobStatus :: "pyval \<Rightarrow> exn + pyval"
  import_WebClient :: "exn option"
  WebClient_new :: "ustring \<Rightarrow> exn option"
  chat_postMessage :: "ustring \<Rightarrow> ustring \<Rightarrow> post_outcome"
  osascript :: "ustring \<Rightarrow> exn option"

text \<open>
  The calls the script makes, in order. \<open>Log path msg\<close> is one call of \<open>log(msg)\<close> while
  \<open>LOG_PATH\<close> is \<open>path\<close> (the line goes to the console and, when the file can be opened,
  to that file, under a time stamp); \<open>LogTraceback\<close> is \<open>log(traceback.format_exc())\<close>.
\<close>

datatype event =
    Log ustring ustring
  | LogTraceback ustring
  | MakeDirs ustring
  | PipInstall ustring
  | WebClientNew ustring
  | ChatPostMessage ustring ustring
  | Osascript ustring

text \<open>The module's globals, the files on disk (path to text) and the calls made so far.\<close>

record script_state =
  LOG_PATH :: ustring
  slack_token :: ustring
  channel_name :: ustring
  files :: "ustring \<rightharpoonup> ustring"
  trace :: "event list"

definition CONFIG_PATH :: "world \<Rightarrow> ustring" where
  "CONFIG_PATH w =
     path_join (path_join (SCRIPT_DIR w) (u ''resolve_slack_settings''))
       (u ''resolve_slack_settings.json'')"

text \<open>The state when the module has been loaded, before its \<open>__main__\<close> block runs.\<close>

definition initial_state :: "world \<Rightarrow> (ustring \<rightharpoonup> ustring) \<Rightarrow> script_state" where
  "initial_state w fs =
     \<lparr>LOG_PATH = expanduser w (u ''~/Desktop/resolve_slack_deliver_'' @ LOG_DATE w @ u ''.log''),
      slack_token = [], channel_name = [], files = fs, trace = []\<rparr>"

definition emit :: "event \<Rightarrow> script_state \<Rightarrow> script_state" where
  "emit ev s = s\<lparr>trace := trace s @ [ev]\<rparr>"

text \<open>\<open>log(msg)\<close>: it never raises, a failure to write the file is swallowed.\<close>

definition log :: "ustring \<Rightarrow> script_state \<Rightarrow> script_state" where
  "log msg s = emit (Log (LOG_PATH s) msg) s"

definition log_traceback :: "script_state \<Rightarrow> script_state" where
  "log_traceback s = emit (LogTraceback (LOG_PATH s)) s"

section \<open>The configuration loader\<close>

text \<open>The \<open>template\<close> dictionary of \<open>ensure_config_exists\<close>.\<close>

definition template :: "(ustring \<times> pyval) list" where
  "template =
     [(u ''slack_token'', PStr (u ''xoxb-REPLACE_WITH_YOUR_TOKEN'')),
      (u ''channel_name'', PStr (u ''CXXXXXXXX'')),
      (u ''log_directory'', PStr (u ''~/Desktop/resolve_slack_deliver_{{date}}.log''))]"

text \<open>\<open>ensure_config_exists(config_path)\<close>\<close>

definition ensure_config_exists :: "world \<Rightarrow> ustring \<Rightarrow> script_state \<Rightarrow> bool \<times> script_state" where
  "ensure_config_exists w config_path s =
     (if files s config_path \<noteq> None then (True, s)
      else
        let s1 = emit (MakeDirs (dirname config_path)) s;
            failed = (False, log_traceback (log (u ''Config error: failed to create config file'') s1))
        in case makedirs w (dirname config_path) of
             Some e \<Rightarrow> failed
           | None \<Rightarrow>
               (case open_write w config_path of
                  Some e \<Rightarrow> failed
                | None \<Rightarrow>
                    let s2 = s1\<lparr>files := (files s1)(config_path \<mapsto> json_dump w (PDict template))\<rparr>
                    in (False, log (u ''Please edit the file and relaunch the render.'')
                                 (log (u ''Config created at '' @ config_path) s2))))"

text \<open>\<open>load_config(config_path)\<close>: the dictionary, or the exception it raises.\<close>

definition load_config :: "world \<Rightarrow> ustring \<Rightarrow> script_state \<Rightarrow> exn + (ustring \<times> pyval) list" where
  "load_config w config_path s =
     (case files s config_path of
        None \<Rightarrow> Inl (Exn (u ''[Errno 2] No such file or directory: '' @ repr_str w config_path))
      | Some raw \<Rightarrow>
          (case open_read w config_path of
             Some e \<Rightarrow> Inl e
           | None \<Rightarrow>
               if strip raw = [] then Inl (Exn (u ''Config file is empty''))
               else (case json_loads w raw of
                       Inl e \<Rightarrow> Inl e
                     | Inr (PDict cfg) \<Rightarrow> Inr cfg
                     | Inr _ \<Rightarrow> Inl (Exn (u ''Config root must be a JSON object'')))))"

text \<open>\<open>build_log_path(cfg)\<close>\<close>

definition build_log_path :: "world \<Rightarrow> (ustring \<times> pyval) list \<Rightarrow> ustring" where
  "build_log_path w cfg =
     (let base_dir = (case map_of cfg (u ''log_directory'') of
                        None \<Rightarrow> PStr (u ''~/Desktop'') | Some v \<Rightarrow> v);
          base_dir = (case base_dir of
                        PStr b \<Rightarrow> if strip b = [] then u ''~/Desktop'' else b
                      | _ \<Rightarrow> u ''~/Desktop'');
          base_dir = expanduser w base_dir;
          filename = u ''resolve_slack_deliver_'' @ date_str w @ u ''.log''
      in path_join base_dir filename)"

text \<open>\<open>cfg.get(key, "")\<close>\<close>

definition dict_get_default :: "(ustring \<times> pyval) list \<Rightarrow> ustring \<Rightarrow> pyval \<Rightarrow> pyval" where
  "dict_get_default kvs k d = (case map_of kvs k of None \<Rightarrow> d | Some v \<Rightarrow> v)"

text \<open>
  \<open>init_from_config()\<close>. Inside its \<open>try\<close> only \<open>load_config\<close> can raise; the inner
  \<open>try\<close> guards \<open>os.makedirs\<close>, which is called when the log directory is not there.
  39 is the single quote.
\<close>

definition init_from_config :: "world \<Rightarrow> script_state \<Rightarrow> bool \<times> script_state" where
  "init_from_config w s =
     (case ensure_config_exists w (CONFIG_PATH w) s of
        (False, s1) \<Rightarrow> (False, s1)
      | (True, s1) \<Rightarrow>
          (case load_config w (CONFIG_PATH w) s1 of
             Inl (Exn e) \<Rightarrow> (False, log_traceback (log (u ''Config error: '' @ e) s1))
           | Inr cfg \<Rightarrow>
               let s2 = s1\<lparr>slack_token :=
                          strip (py_str (repr_str w) (dict_get_default cfg (u ''slack_token'') (PStr [])))\<rparr>;
                   s3 = s2\<lparr>channel_name :=
                          strip (py_str (repr_str w) (dict_get_default cfg (u ''channel_name'') (PStr [])))\<rparr>;
                   s4 = s3\<lparr>LOG_PATH := build_log_path w cfg\<rparr>;
                   log_dir = dirname (LOG_PATH s4);
                   s5 = (if isdir w log_dir then s4 else emit (MakeDirs log_dir) s4)
               in if \<not> isdir w log_dir \<and> makedirs w log_dir \<noteq> None
                  then (False, log (u ''Config error: cannot create log directory '' @ log_dir) s5)
                  else if slack_token s5 = []
                  then (False, log (u ''Config error: '' @ [39] @ u ''slack_token'' @ [39]
                                    @ u '' is missing or empty'') s5)
                  else if channel_name s5 = []
                  then (False, log (u ''Config error: '' @ [39] @ u ''channel_name'' @ [39]
                                    @ u '' is missing or empty'') s5)
                  else (True, s5)))"

section \<open>The dependency installer\<close>

text \<open>
  \<open>ensure_slack_sdk_installed(log_func)\<close>; 10 is the line feed. The line of
  \<open>traceback.format_exc()\<close> is written as \<open>log\<close> writes it, \<open>log\<close> being the \<open>log_func\<close>
  that \<open>main\<close> passes.
\<close>

definition ensure_slack_sdk_installed ::
  "world \<Rightarrow> (ustring \<Rightarrow> script_state \<Rightarrow> script_state) \<Rightarrow> script_state \<Rightarrow> bool \<times> script_state" where
  "ensure_slack_sdk_installed w log_func s =
     (case import_slack_sdk w of
        None \<Rightarrow> (True, log_func (u ''Dependency check: slack_sdk already installed'') s)
      | Some e0 \<Rightarrow>
          let s1 = log_func (u ''Dependency check: slack_sdk missing, attempting installation'') s;
              python_exec = sys_executable w;
              s2 = log_func (u ''Dependency install: using python '' @ python_exec) s1;
              s3 = emit (PipInstall python_exec) s2;
              failed = (\<lambda>e s'. (False, log_traceback
                           (log_func (u ''Dependency install failed: '' @ e) s')))
          in (case pip_install w of
               Inl (Exn e) \<Rightarrow> failed e s3
             | Inr (out, err, returncode) \<Rightarrow>
                 let s4 = (if strip out \<noteq> []
                           then log_func (u ''pip stdout:'' @ [10] @ strip out) s3 else s3);
                     s5 = (if strip err \<noteq> []
                           then log_func (u ''pip stderr:'' @ [10] @ strip err) s4 else s4)
                 in if returncode \<noteq> 0
                    then (False, log_func (u ''Dependency install failed (pip error)'') s5)
                    else (case import_slack_sdk_again w of
                            Some (Exn e) \<Rightarrow> failed e s5
                          | None \<Rightarrow>
                              (True, log_func
                                 (u ''Dependency install: slack_sdk successfully installed'') s5))))"

section \<open>The host query\<close>

text \<open>\<open>get_resolve()\<close>: whether a handle of the host application was obtained.\<close>

definition get_resolve :: "world \<Rightarrow> bool" where
  "get_resolve w =
     (if resolve_global w then True
      else case scriptapp w of Inl e \<Rightarrow> False | Inr r \<Rightarrow> r)"

definition get_globals :: "world \<Rightarrow> pyval \<times> pyval \<times> pyval" where
  "get_globals w = (job_global w, status_global w, error_global w)"

text \<open>\<open>a == b\<close> on these values: \<open>True == 1\<close>, lists by position, dictionaries by key.\<close>

fun py_eq :: "pyval \<Rightarrow> pyval \<Rightarrow> bool" where
  "py_eq PNone PNone = True"
| "py_eq (PBool a) (PBool b) = (a = b)"
| "py_eq (PBool a) (PInt b) = (b = (if a then 1 else 0))"
| "py_eq (PInt a) (PBool b) = (a = (if b then 1 else 0))"
| "py_eq (PInt a) (PInt b) = (a = b)"
| "py_eq (PStr a) (PStr b) = (a = b)"
| "py_eq (PList a) (PList b) = list_all2 py_eq a b"
| "py_eq (PDict a) (PDict b) =
     (list_all (\<lambda>kv. list_ex (\<lambda>kw. fst kv = fst kw \<and> py_eq (snd kv) (snd kw)) b) a
      \<and> list_all (\<lambda>kw. fst kw \<in> set (map fst a)) b)"
| "py_eq _ _ = False"

text \<open>
  \<open>jd.get("JobId")\<close> on a record of the job list: only a dictionary has a \<open>get\<close>, any
  other value raises \<open>AttributeError\<close>.
\<close>

definition type_name :: "pyval \<Rightarrow> ustring" where
  "type_name v = (case v of PNone \<Rightarrow> u ''NoneType'' | PBool _ \<Rightarrow> u ''bool'' | PInt _ \<Rightarrow> u ''int''
     | PStr _ \<Rightarrow> u ''str'' | PList _ \<Rightarrow> u ''list'' | PDict _ \<Rightarrow> u ''dict'')"

definition record_get :: "pyval \<Rightarrow> ustring \<Rightarrow> exn + pyval" where
  "record_get jd k =
     (case jd of
        PDict d \<Rightarrow> Inr (dict_get d k)
      | _ \<Rightarrow> Inl (Exn ([39] @ type_name jd @ u '' object has no attribute '' @ [39] @ u ''get'' @ [39])))"

text \<open>The \<open>for jd in job_list\<close> loop of \<open>get_job_details\<close>.\<close>

fun scan_job_list :: "pyval list \<Rightarrow> pyval \<Rightarrow> pyval" where
  "scan_job_list [] job_id = PNone"
| "scan_job_list (jd # rest) job_id =
     (case record_get jd (u ''JobId'') of
        Inl e \<Rightarrow> scan_job_list rest job_id
      | Inr v \<Rightarrow> if py_eq v job_id then jd else scan_job_list rest job_id)"

text \<open>\<open>get_job_details(project, job_id)\<close>\<close>

definition get_job_details :: "world \<Rightarrow> pyval \<Rightarrow> pyval" where
  "get_job_details w job_id =
     (case GetRenderJobList w of
        Inl e \<Rightarrow> PNone
      | Inr r \<Rightarrow>
          let job_list = (case r of None \<Rightarrow> [] | Some xs \<Rightarrow> xs)
          in scan_job_list job_list job_id)"

text \<open>\<open>get_detailed_status(project, job_id)\<close>\<close>

definition get_detailed_status :: "world \<Rightarrow> pyval \<Rightarrow> pyval" where
  "get_detailed_status w job_id =
     (if job_id = PNone then PNone
      else case GetRenderJobStatus w job_id of Inl e \<Rightarrow> PNone | Inr v \<Rightarrow> v)"

section \<open>The notifier\<close>

text \<open>
  \<open>notify_slack(message)\<close>: the value it returns, or the exception that leaves it.
  \<open>WebClient(token=slack_token)\<close> stands between the two \<open>try\<close> statements.
\<close>

definition notify_slack :: "world \<Rightarrow> ustring \<Rightarrow> script_state \<Rightarrow> (exn + bool) \<times> script_state" where
  "notify_slack w message s =
     (case import_WebClient w of
        Some e \<Rightarrow> (Inr False, log_traceback (log (u ''Slack: missing slack_sdk'') s))
      | None \<Rightarrow>
          let s1 = emit (WebClientNew (slack_token s)) s
          in (case WebClient_new w (slack_token s) of
                Some e \<Rightarrow> (Inl e, s1)
              | None \<Rightarrow>
                  let s2 = emit (ChatPostMessage (channel_name s) message) s1
                  in (case chat_postMessage w (channel_name s) message of
                        Returned r \<Rightarrow>
                          let ok = truthy (case r of None \<Rightarrow> PBool True | Some v \<Rightarrow> v)
                          in (Inr ok, s2)
                      | RaisedSlackApiError r \<Rightarrow>
                          let err = (case r of Inr v \<Rightarrow> v | Inl str_e \<Rightarrow> PStr str_e)
                          in (Inr False, log (u ''SlackApiError: '' @ py_str (repr_str w) err) s2)
                      | RaisedException e \<Rightarrow>
                          (Inr False, log_traceback (log (u ''Slack: unexpected error'') s2)))))"

text \<open>\<open>s.replace('"', '\\"')\<close>: 34 is the double quote, 92 the backslash.\<close>

definition escape_quotes :: "ustring \<Rightarrow> ustring" where
  "escape_quotes s = concat (map (\<lambda>c. if c = 34 then [92, 34] else [c]) s)"

text \<open>\<open>notify_macos(title, message)\<close>\<close>

definition notify_macos :: "world \<Rightarrow> ustring \<Rightarrow> ustring \<Rightarrow> script_state \<Rightarrow> script_state" where
  "notify_macos w title message s =
     (let safe_title = escape_quotes title;
          safe_msg = escape_quotes message;
          script = u ''display notification '' @ [34] @ safe_msg @ [34]
                   @ u '' with title '' @ [34] @ safe_title @ [34];
          s1 = emit (Osascript script) s
      in (case osascript w script of
            None \<Rightarrow> s1
          | Some e \<Rightarrow> log_traceback (log (u ''macOS notification failed'') s1)))"

section \<open>The top level\<close>

text \<open>\<open>main()\<close>: it returns, or an exception leaves it; 39 is the single quote.\<close>

definition main :: "world \<Rightarrow> script_state \<Rightarrow> (exn + unit) \<times> script_state" where
  "main w s =
     (case init_from_config w s of
        (False, s1) \<Rightarrow> (Inr (), s1)
      | (True, s1) \<Rightarrow>
     (case ensure_slack_sdk_installed w log s1 of
        (False, s2) \<Rightarrow> (Inr (), log (u ''Fatal: slack_sdk dependency unavailable'') s2)
      | (True, s2) \<Rightarrow>
     (let s3 = log (u ''Deliver hook: start'') s2;
          s4 = log (u ''Python: '' @ python_version w @ u '' ('' @ sys_executable w @ u '')'') s3
      in
     (case gethostname w of Inl e \<Rightarrow> (Inl e, s4) | Inr host \<Rightarrow>
     (case platform_platform w of Inl e \<Rightarrow> (Inl e, s4) | Inr os \<Rightarrow>
     (let s5 = log (u ''Host: '' @ host @ u '' | OS: '' @ os) s4;
          s6 = log (u ''Config path: '' @ CONFIG_PATH w) s5;
          s7 = log (u ''Log path: '' @ LOG_PATH s6) s6;
          (job_id, status_global, error_global) = get_globals w;
          s8 = log (u ''Trigger globals: job='' @ py_repr (repr_str w) job_id
                    @ u '' status='' @ py_repr (repr_str w) status_global
                    @ u '' error='' @ py_repr (repr_str w) error_global) s7
      in
     if \<not> get_resolve w
     then (Inr (), log (u ''Resolve API: could not obtain '' @ [39] @ u ''resolve'' @ [39]) s8)
     else
     (case (case GetProjectManager w of
              Inl e \<Rightarrow> Inl e
            | Inr pm \<Rightarrow> if pm then GetCurrentProject w else Inr False) of
        Inl e \<Rightarrow>
          (Inr (), log_traceback (log (u ''Resolve API: error while getting current project'') s8))
      | Inr project \<Rightarrow>
     if \<not> project
     then (Inr (), log (u ''Resolve API: no current project'') s8)
     else
     (let project_name = (case GetName w of Inl e \<Rightarrow> PStr (u ''(unknown)'') | Inr n \<Rightarrow> n);
          detailed_status = get_detailed_status w job_id;
          job_details = (if job_id \<noteq> PNone then get_job_details w job_id else PNone);
          slack_msg = build_slack_message (repr_str w) project_name status_global error_global
                        job_details detailed_status;
          s9 = log (u ''Slack message: '' @ slack_msg) s8
      in
     (case notify_slack w slack_msg s9 of
        (Inl e, s10) \<Rightarrow> (Inl e, s10)
      | (Inr ok, s10) \<Rightarrow>
          let s11 = log (if ok then u ''Deliver hook: done (Slack OK)''
                         else u ''Deliver hook: done (Slack FAILED)'') s10
          in (Inr (), notify_macos w (u ''DaVinci Resolve'') slack_msg s11))))))))))"

text \<open>The \<open>__main__\<close> block: the outermost guard logs what leaves \<open>main\<close>.\<close>

definition run_script :: "world \<Rightarrow> script_state \<Rightarrow> script_state" where
  "run_script w s =
     (let s0 = s\<lparr>slack_token := [], channel_name := []\<rparr>
      in (case main w s0 of
            (Inr r, s1) \<Rightarrow> s1
          | (Inl e, s1) \<Rightarrow> log_traceback (log (u ''Deliver hook: fatal error'') s1)))"

text \<open>The calls that notify: the Slack client and its post, and \<open>osascript\<close>.\<close>

fun is_notification :: "event \<Rightarrow> bool" where
  "is_notification (WebClientNew t) = True"
| "is_notification (ChatPostMessage c m) = True"
| "is_notification (Osascript sc) = True"
| "is_notification _ = False"

section \<open>Notions used in the statements\<close>

text \<open>
  The \<open>repr\<close> of a string of printable ASCII characters with no quote and no backslash in
  it: the string between single quotes (39).
\<close>

definition ascii_repr :: "ustring \<Rightarrow> ustring" where
  "ascii_repr s = [39] @ s @ [39]"

text \<open>A record of the job list whose \<open>JobId\<close> field can be read and equals the job identifier.\<close>

definition matches_job :: "pyval \<Rightarrow> pyval \<Rightarrow> bool" where
  "matches_job jd job_id =
     (case record_get jd (u ''JobId'') of Inl e \<Rightarrow> False | Inr v \<Rightarrow> py_eq v job_id)"

text \<open>The two credentials as \<open>init_from_config\<close> reads them off the loaded dictionary.\<close>

definition loaded_token :: "world \<Rightarrow> (ustring \<times> pyval) list \<Rightarrow> ustring" where
  "loaded_token w cfg =
     strip (py_str (repr_str w) (dict_get_default cfg (u ''slack_token'') (PStr [])))"

definition loaded_channel :: "world \<Rightarrow> (ustring \<times> pyval) list \<Rightarrow> ustring" where
  "loaded_channel w cfg =
     strip (py_str (repr_str w) (dict_get_default cfg (u ''channel_name'') (PStr [])))"

text \<open>
  A run reaches the notification stage: the configuration and the dependency are in
  place, the host name and platform are read, and the host application gives a project.
\<close>

definition reaches_notification :: "world \<Rightarrow> script_state \<Rightarrow> bool" where
  "reaches_notification w s =
     (fst (init_from_config w s)
      \<and> fst (ensure_slack_sdk_installed w log (snd (init_from_config w s)))
      \<and> \<not> isl (gethostname w) \<and> \<not> isl (platform_platform w)
      \<and> get_resolve w
      \<and> GetProjectManager w = Inr True \<and> GetCurrentProject w = Inr True)"

text \<open>The message \<open>main\<close> builds from the trigger globals and the host's answers.\<close>

definition slack_message :: "world \<Rightarrow> ustring" where
  "slack_message w =
     build_slack_message (repr_str w)
       (case GetName w of Inl e \<Rightarrow> PStr (u ''(unknown)'') | Inr n \<Rightarrow> n)
       (status_global w) (error_global w)
       (if job_global w \<noteq> PNone then get_job_details w (job_global w) else PNone)
       (get_detailed_status w (job_global w))"

subsection \<open>A concrete world\<close>

text \<open>
  A world for the closed statements below: the home directory \<open>/Users/editor\<close>, a file
  system where every call succeeds, \<open>json\<close> on the three texts that occur, a host with
  four render jobs (the first one malformed), and a Slack client that acknowledges.
  126 is the tilde, 34 the double quote, 10 the line feed.
\<close>

definition home_expand :: "ustring \<Rightarrow> ustring" where
  "home_expand p =
     (if p = [126] \<or> take 2 p = [126, 47] then u ''/Users/editor'' @ tl p else p)"

definition quoted :: "ustring \<Rightarrow> ustring" where
  "quoted s = [34] @ s @ [34]"

text \<open>What \<open>json.dump(template, f, indent=2)\<close> writes.\<close>

definition template_text :: ustring where
  "template_text =
     u ''{'' @ [10]
     @ u ''  '' @ quoted (u ''slack_token'') @ u '': '' @ quoted (u ''xoxb-REPLACE_WITH_YOUR_TOKEN'')
     @ u '','' @ [10]
     @ u ''  '' @ quoted (u ''channel_name'') @ u '': '' @ quoted (u ''CXXXXXXXX'')
     @ u '','' @ [10]
     @ u ''  '' @ quoted (u ''log_directory'') @ u '': ''
     @ quoted (u ''~/Desktop/resolve_slack_deliver_{{date}}.log'') @ [10]
     @ u ''}''"

definition configured_cfg :: "(ustring \<times> pyval) list" where
  "configured_cfg =
     [(u ''slack_token'', PStr (u ''xoxb-1'')), (u ''channel_name'', PStr (u ''C123''))]"

definition configured_text :: ustring where
  "configured_text =
     u ''{'' @ quoted (u ''slack_token'') @ u '': '' @ quoted (u ''xoxb-1'') @ u '', ''
     @ quoted (u ''channel_name'') @ u '': '' @ quoted (u ''C123'') @ u ''}''"

definition blank_token_cfg :: "(ustring \<times> pyval) list" where
  "blank_token_cfg =
     [(u ''slack_token'', PStr (u ''  '')), (u ''channel_name'', PStr (u ''C123''))]"

definition blank_token_text :: ustring where
  "blank_token_text =
     u ''{'' @ quoted (u ''slack_token'') @ u '': '' @ quoted (u ''  '') @ u '', ''
     @ quoted (u ''channel_name'') @ u '': '' @ quoted (u ''C123'') @ u ''}''"

definition job42 :: pyval where
  "job42 = PDict [(u ''JobId'', PStr (u ''42'')), (u ''TimelineName'', PStr (u ''Main'')),
                  (u ''OutputFilename'', PStr (u ''out.mov''))]"

definition demo_jobs :: "pyval list" where
  "demo_jobs = [PNone, PDict [(u ''JobId'', PStr (u ''7''))], job42,
                PDict [(u ''JobId'', PStr (u ''42'')), (u ''TimelineName'', PStr (u ''Late''))]]"

definition demo_world :: world where
  "demo_world =
     \<lparr>repr_str = ascii_repr,
      SCRIPT_DIR = u ''/Users/editor/Deliver'',
      LOG_DATE = u ''2026-01-15'',
      makedirs = (\<lambda>p. None),
      open_write = (\<lambda>p. None),
      open_read = (\<lambda>p. None),
      json_dump = (\<lambda>v. if v = PDict template then template_text else []),
      json_loads = (\<lambda>t. if t = template_text then Inr (PDict template)
                         else if t = configured_text then Inr (PDict configured_cfg)
                         else if t = blank_token_text then Inr (PDict blank_token_cfg)
                         else Inl (Exn (u ''Expecting value''))),
      expanduser = home_expand,
      date_str = u ''2026-01-15'',
      isdir = (\<lambda>p. p = u ''/Users/editor/Desktop''),
      import_slack_sdk = None,
      sys_executable = u ''/usr/bin/python3'',
      pip_install = Inr ([], [], 0),
      import_slack_sdk_again = None,
      python_version = u ''3.11.4'',
      gethostname = Inr (u ''studio''),
      platform_platform = Inr (u ''macOS-14.5-arm64''),
      job_global = PStr (u ''42''),
      status_global = PStr (u ''Complete''),
      error_global = PNone,
      resolve_global = True,
      scriptapp = Inr True,
      GetProjectManager = Inr True,
      GetCurrentProject = Inr True,
      GetName = Inr (PStr (u ''MyProj'')),
      GetRenderJobList = Inr (Some demo_jobs),
      GetRenderJobStatus = (\<lambda>j. Inr PNone),
      import_WebClient = None,
      WebClient_new = (\<lambda>t. None),
      chat_postMessage = (\<lambda>c m. Returned (Some (PBool True))),
      osascript = (\<lambda>sc. None)\<rparr>"

text \<open>The same world with a Slack client whose constructor raises.\<close>

definition broken_client_world :: world where
  "broken_client_world =
     demo_world\<lparr>WebClient_new := (\<lambda>t. Some (Exn (u ''client construction failed'')))\<rparr>"

definition no_files :: "ustring \<rightharpoonup> ustring" where
  "no_files = Map.empty"

definition fresh_state :: script_state where
  "fresh_state = initial_state demo_world no_files"

definition configured_state :: script_state where
  "configured_state = initial_state demo_world (no_files(CONFIG_PATH demo_world \<mapsto> configured_text))"

definition blank_token_state :: script_state where
  "blank_token_state = initial_state demo_world (no_files(CONFIG_PATH demo_world \<mapsto> blank_token_text))"

section \<open>Properties\<close>

subsection \<open>The message builder\<close>

lemma digits_nonempty: "digits n \<noteq> []"
  by (subst digits.simps) simp

lemma py_str_truthy_nonempty: "truthy v \<Longrightarrow> py_str rs v \<noteq> []"
  by (cases v) (simp_all add: py_str_def digits_nonempty)

lemma pick_status_nonempty: "pick_status rs sg ds \<noteq> []"
  by (cases ds)
     (simp_all add: pick_status_def Let_def py_str_truthy_nonempty split: option.splits)

lemma join_sep_Cons:
  "join_sep sep (p # ps) = (if ps = [] then p else p @ sep @ join_sep sep ps)"
  by (cases ps) simp_all

lemma dict_get_Nil: "dict_get [] k = PNone"
  by (simp add: dict_get_def)

text \<open>
  Claim C3. For job details \<open>{"JobId": "42", "TimelineName": "Main", "OutputFilename":
  "out.mov"}\<close>, project name \<open>"MyProj"\<close>, status \<open>"Complete"\<close>, no error and any detailed
  status, the message is \<open>Complete [MyProj] Main\<close>, then the three code points U+00E2,
  U+2020, U+2019 that the literal of the source holds, then \<open>out.mov\<close>; it is not the
  message with the arrow U+2192 in that place.
\<close>

theorem build_slack_message_scenario:
  "build_slack_message rs (PStr (u ''MyProj'')) (PStr (u ''Complete'')) PNone
     (PDict [(u ''JobId'', PStr (u ''42'')), (u ''TimelineName'', PStr (u ''Main'')),
             (u ''OutputFilename'', PStr (u ''out.mov''))]) detailed_status
   = u ''Complete [MyProj] Main '' @ [0xE2, 0x2020, 0x2019] @ u '' out.mov''
   \<and> build_slack_message rs (PStr (u ''MyProj'')) (PStr (u ''Complete'')) PNone
     (PDict [(u ''JobId'', PStr (u ''42'')), (u ''TimelineName'', PStr (u ''Main'')),
             (u ''OutputFilename'', PStr (u ''out.mov''))]) detailed_status
   \<noteq> u ''Complete [MyProj] Main '' @ [0x2192] @ u '' out.mov''"
  by (simp add: build_slack_message_def pick_status_def py_str_def py_or_def dict_get_def
        outname_prefix_def)

text \<open>
  Claim C5. \<open>pick_status\<close> resolves in this order: the stringified \<open>status_global\<close> when it
  is truthy; else, when \<open>detailed_status\<close> is a dictionary, its \<open>Status\<close> field when that is
  truthy, else its \<open>status\<close> field when that is truthy; else the stringified
  \<open>detailed_status\<close> when it is truthy; else \<open>Unknown\<close>.
\<close>

theorem pick_status_precedence:
  "(truthy sg \<longrightarrow> pick_status rs sg ds = py_str rs sg)
   \<and> (\<not> truthy sg \<and> ds = PDict d \<and> truthy (dict_get d (u ''Status''))
        \<longrightarrow> pick_status rs sg ds = py_str rs (dict_get d (u ''Status'')))
   \<and> (\<not> truthy sg \<and> ds = PDict d \<and> \<not> truthy (dict_get d (u ''Status''))
        \<and> truthy (dict_get d (u ''status''))
        \<longrightarrow> pick_status rs sg ds = py_str rs (dict_get d (u ''status'')))
   \<and> (\<not> truthy sg
        \<and> (\<forall>d. ds = PDict d \<longrightarrow> \<not> truthy (dict_get d (u ''Status''))
                                 \<and> \<not> truthy (dict_get d (u ''status'')))
        \<and> truthy ds
        \<longrightarrow> pick_status rs sg ds = py_str rs ds)
   \<and> (\<not> truthy sg
        \<and> (\<forall>d. ds = PDict d \<longrightarrow> \<not> truthy (dict_get d (u ''Status''))
                                 \<and> \<not> truthy (dict_get d (u ''status'')))
        \<and> \<not> truthy ds
        \<longrightarrow> pick_status rs sg ds = u ''Unknown'')"
  by (cases ds) (simp_all add: pick_status_def Let_def py_or_def dict_get_Nil)

text \<open>
  Claim C10. For all inputs the message is not empty, and the first of its segments
  (the parts that are joined by single spaces) is the resolved status: the message is the
  status alone, or the status, a space, and the later segments.
\<close>

theorem build_slack_message_starts_with_status:
  "build_slack_message rs project_name sg eg job_details ds \<noteq> []
   \<and> (build_slack_message rs project_name sg eg job_details ds = pick_status rs sg ds
      \<or> (\<exists>rest. build_slack_message rs project_name sg eg job_details ds
                  = pick_status rs sg ds @ u '' '' @ rest))"
  by (simp add: build_slack_message_def Let_def join_sep_Cons pick_status_nonempty)

text \<open>The five cases of C5 on concrete values.\<close>

theorem pick_status_precedence_witness:
  "pick_status ascii_repr (PStr (u ''Complete'')) (PDict [(u ''Status'', PStr (u ''Rendering''))])
     = u ''Complete''
   \<and> pick_status ascii_repr PNone (PDict [(u ''Status'', PStr (u ''Rendering''))]) = u ''Rendering''
   \<and> pick_status ascii_repr PNone (PDict [(u ''status'', PStr (u ''Failed''))]) = u ''Failed''
   \<and> pick_status ascii_repr PNone (PInt 7) = u ''7''
   \<and> pick_status ascii_repr PNone PNone = u ''Unknown''"
  using pick_status_precedence [of "PStr (u ''Complete'')" ascii_repr
          "PDict [(u ''Status'', PStr (u ''Rendering''))]" "[]"]
        pick_status_precedence [of PNone ascii_repr
          "PDict [(u ''Status'', PStr (u ''Rendering''))]" "[(u ''Status'', PStr (u ''Rendering''))]"]
        pick_status_precedence [of PNone ascii_repr
          "PDict [(u ''status'', PStr (u ''Failed''))]" "[(u ''status'', PStr (u ''Failed''))]"]
        pick_status_precedence [of PNone ascii_repr "PInt 7" "[]"]
        pick_status_precedence [of PNone ascii_repr PNone "[]"]
  by (simp add: dict_get_def py_str_def digits.simps)

subsection \<open>The host query\<close>

lemma scan_job_list_skip:
  "\<forall>x\<in>set pre. \<not> matches_job x job_id \<Longrightarrow>
   scan_job_list (pre @ rest) job_id = scan_job_list rest job_id"
  by (induction pre) (auto simp: matches_job_def split: sum.splits)

lemma scan_job_list_hit:
  "matches_job jd job_id \<Longrightarrow> scan_job_list (jd # post) job_id = jd"
  by (auto simp: matches_job_def split: sum.splits)

lemma scan_job_list_first:
  "\<forall>x\<in>set pre. \<not> matches_job x job_id \<Longrightarrow> matches_job jd job_id \<Longrightarrow>
   scan_job_list (pre @ jd # post) job_id = jd"
  by (simp add: scan_job_list_skip scan_job_list_hit del: scan_job_list.simps)

lemma scan_job_list_miss:
  "\<forall>x\<in>set xs. \<not> matches_job x job_id \<Longrightarrow> scan_job_list xs job_id = PNone"
  using scan_job_list_skip [of xs job_id "[]"] by simp

text \<open>
  Claim C7. The scan of the render job list returns the first record whose \<open>JobId\<close>
  equals the job identifier, whatever follows it; it gives \<open>None\<close> when no record matches,
  when the host returns no list, and when the query raises; and the detailed status is
  \<open>None\<close> when its query raises. Neither function raises.
\<close>

theorem get_job_details_first_match:
  "(GetRenderJobList w = Inr (Some (pre @ jd # post))
      \<and> (\<forall>x\<in>set pre. \<not> matches_job x job_id) \<and> matches_job jd job_id
      \<longrightarrow> get_job_details w job_id = jd)
   \<and> (GetRenderJobList w = Inr (Some xs) \<and> (\<forall>x\<in>set xs. \<not> matches_job x job_id)
      \<longrightarrow> get_job_details w job_id = PNone)
   \<and> (GetRenderJobList w = Inr None \<longrightarrow> get_job_details w job_id = PNone)
   \<and> (GetRenderJobList w = Inl e \<longrightarrow> get_job_details w job_id = PNone)
   \<and> (GetRenderJobStatus w job_id = Inl e' \<longrightarrow> get_detailed_status w job_id = PNone)"
proof (intro conjI impI)
  assume "GetRenderJobList w = Inr (Some (pre @ jd # post))
            \<and> (\<forall>x\<in>set pre. \<not> matches_job x job_id) \<and> matches_job jd job_id"
  then show "get_job_details w job_id = jd"
    by (simp add: get_job_details_def scan_job_list_first del: scan_job_list.simps)
next
  assume "GetRenderJobList w = Inr (Some xs) \<and> (\<forall>x\<in>set xs. \<not> matches_job x job_id)"
  then show "get_job_details w job_id = PNone"
    by (simp add: get_job_details_def scan_job_list_miss)
next
  assume "GetRenderJobList w = Inr None"
  then show "get_job_details w job_id = PNone"
    by (simp add: get_job_details_def)
next
  assume "GetRenderJobList w = Inl e"
  then show "get_job_details w job_id = PNone"
    by (simp add: get_job_details_def)
next
  assume "GetRenderJobStatus w job_id = Inl e'"
  then show "get_detailed_status w job_id = PNone"
    by (simp add: get_detailed_status_def)
qed

text \<open>
  Claim C9. Records on which reading \<open>JobId\<close> raises are skipped: when only such records
  stand before a record whose \<open>JobId\<close> equals the job identifier, that record is found.
\<close>

theorem get_job_details_skips_malformed:
  "GetRenderJobList w = Inr (Some (pre @ jd # post)) \<Longrightarrow>
   \<forall>x\<in>set pre. \<exists>e. record_get x (u ''JobId'') = Inl e \<Longrightarrow>
   record_get jd (u ''JobId'') = Inr v \<Longrightarrow> py_eq v job_id \<Longrightarrow>
   get_job_details w job_id = jd"
proof -
  assume l: "GetRenderJobList w = Inr (Some (pre @ jd # post))"
    and bad: "\<forall>x\<in>set pre. \<exists>e. record_get x (u ''JobId'') = Inl e"
    and v: "record_get jd (u ''JobId'') = Inr v" and eq: "py_eq v job_id"
  from bad have "\<forall>x\<in>set pre. \<not> matches_job x job_id"
    by (auto simp: matches_job_def)
  then have "scan_job_list (pre @ jd # post) job_id = scan_job_list (jd # post) job_id"
    by (rule scan_job_list_skip)
  also from v eq have "\<dots> = jd" by simp
  finally show ?thesis using l by (simp add: get_job_details_def)
qed

subsection \<open>The configuration loader\<close>

text \<open>
  Claim C8. \<open>build_log_path\<close> takes \<open>log_directory\<close> (\<open>~/Desktop\<close> when it is missing, not
  a string, or blank after \<open>strip\<close>), expands the home directory in it, and joins it with
  \<open>resolve_slack_deliver_<date>.log\<close> for the current date: the file name follows the
  directory, after one slash unless the directory already ends with one.
\<close>

theorem build_log_path_shape:
  "build_log_path w cfg =
     (let base = (case map_of cfg (u ''log_directory'') of
                    Some (PStr b) \<Rightarrow> if strip b = [] then u ''~/Desktop'' else b
                  | _ \<Rightarrow> u ''~/Desktop'');
          d = expanduser w base
      in d @ (if d = [] \<or> last d = 47 then [] else [47])
           @ u ''resolve_slack_deliver_'' @ date_str w @ u ''.log'')"
  by (simp add: build_log_path_def path_join_def Let_def split: option.splits pyval.splits)

subsection \<open>Runs that stop at the configuration\<close>

lemma load_config_exists:
  "load_config w p s = Inr cfg \<Longrightarrow> files s p \<noteq> None"
  by (auto simp: load_config_def split: option.splits)

lemma ensure_config_exists_present:
  "files s p \<noteq> None \<Longrightarrow> ensure_config_exists w p s = (True, s)"
  by (simp add: ensure_config_exists_def)

lemma init_from_config_quiet:
  "filter is_notification (trace (snd (init_from_config w s))) = filter is_notification (trace s)"
  by (simp add: init_from_config_def ensure_config_exists_def Let_def log_def
        log_traceback_def emit_def
      split: option.splits sum.splits exn.splits bool.splits prod.splits)

lemma init_from_config_missing:
  assumes cfg: "load_config w (CONFIG_PATH w) s = Inr cfg"
    and bad: "\<exists>k\<in>{u ''slack_token'', u ''channel_name''}.
                case map_of cfg k of None \<Rightarrow> True
                | Some v \<Rightarrow> strip (py_str (repr_str w) v) = []"
  shows "fst (init_from_config w s) = False"
proof -
  from bad have
    "strip (py_str (repr_str w) (dict_get_default cfg (u ''slack_token'') (PStr []))) = []
     \<or> strip (py_str (repr_str w) (dict_get_default cfg (u ''channel_name'') (PStr []))) = []"
    by (auto simp: dict_get_default_def py_str_def strip_def split: option.splits)
  with cfg load_config_exists [OF cfg] show ?thesis
    by (auto simp: init_from_config_def ensure_config_exists_present Let_def log_def
          log_traceback_def emit_def
        split: option.splits sum.splits exn.splits bool.splits prod.splits)
qed

lemma main_after_abort:
  "fst (init_from_config w s) = False \<Longrightarrow> main w s = (Inr (), snd (init_from_config w s))"
  by (cases "init_from_config w s") (simp add: main_def)

text \<open>
  Claim C6. When the loaded configuration lacks \<open>slack_token\<close> or \<open>channel_name\<close>, or one of
  them is empty after \<open>strip\<close>, \<open>init_from_config\<close> returns \<open>False\<close>, \<open>main\<close> returns, and
  neither \<open>main\<close> nor the whole script makes a call to the Slack client or to \<open>osascript\<close>.
\<close>

theorem missing_credentials_abort:
  assumes cfg: "load_config w (CONFIG_PATH w) s = Inr cfg"
    and bad: "\<exists>k\<in>{u ''slack_token'', u ''channel_name''}.
                case map_of cfg k of None \<Rightarrow> True
                | Some v \<Rightarrow> strip (py_str (repr_str w) v) = []"
  shows "fst (init_from_config w s) = False
         \<and> fst (main w s) = Inr ()
         \<and> filter is_notification (trace (snd (main w s))) = filter is_notification (trace s)
         \<and> filter is_notification (trace (run_script w s)) = filter is_notification (trace s)"
proof -
  have a: "fst (init_from_config w s) = False"
    using cfg bad by (rule init_from_config_missing)
  let ?s0 = "s\<lparr>slack_token := [], channel_name := []\<rparr>"
  have "load_config w (CONFIG_PATH w) ?s0 = Inr cfg"
    using cfg by (simp add: load_config_def)
  then have b: "fst (init_from_config w ?s0) = False"
    using bad by (rule init_from_config_missing)
  have "main w ?s0 = (Inr (), snd (init_from_config w ?s0))"
    using b by (rule main_after_abort)
  then have "run_script w s = snd (init_from_config w ?s0)"
    unfolding run_script_def Let_def by simp
  then have "filter is_notification (trace (run_script w s)) = filter is_notification (trace ?s0)"
    by (simp add: init_from_config_quiet)
  then show ?thesis
    using a by (simp add: main_after_abort init_from_config_quiet)
qed

subsection \<open>What the helpers leave unchanged\<close>

lemma log_fields [simp]:
  "slack_token (log m s) = slack_token s" "channel_name (log m s) = channel_name s"
  "files (log m s) = files s" "LOG_PATH (log m s) = LOG_PATH s"
  "trace (log m s) = trace s @ [Log (LOG_PATH s) m]"
  by (simp_all add: log_def emit_def)

lemma log_traceback_fields [simp]:
  "slack_token (log_traceback s) = slack_token s" "channel_name (log_traceback s) = channel_name s"
  "files (log_traceback s) = files s" "LOG_PATH (log_traceback s) = LOG_PATH s"
  "trace (log_traceback s) = trace s @ [LogTraceback (LOG_PATH s)]"
  by (simp_all add: log_traceback_def emit_def)

lemma emit_fields [simp]:
  "slack_token (emit ev s) = slack_token s" "channel_name (emit ev s) = channel_name s"
  "files (emit ev s) = files s" "LOG_PATH (emit ev s) = LOG_PATH s"
  "trace (emit ev s) = trace s @ [ev]"
  by (simp_all add: emit_def)

lemma ensure_config_exists_fresh:
  "files s p = None \<Longrightarrow> fst (ensure_config_exists w p s) = False"
  by (simp add: ensure_config_exists_def Let_def split: option.splits)

lemma ensure_config_exists_written:
  "files s p = None \<Longrightarrow> makedirs w (dirname p) = None \<Longrightarrow> open_write w p = None \<Longrightarrow>
   files (snd (ensure_config_exists w p s)) p = Some (json_dump w (PDict template))"
  by (simp add: ensure_config_exists_def Let_def)

lemma init_from_config_fresh:
  "files s (CONFIG_PATH w) = None \<Longrightarrow>
   init_from_config w s = (False, snd (ensure_config_exists w (CONFIG_PATH w) s))"
  using ensure_config_exists_fresh [of s "CONFIG_PATH w" w]
  by (cases "ensure_config_exists w (CONFIG_PATH w) s") (simp add: init_from_config_def)

lemma init_from_config_loaded:
  assumes cfg: "load_config w (CONFIG_PATH w) s = Inr cfg"
  shows "fst (init_from_config w s) =
           ((isdir w (dirname (build_log_path w cfg))
             \<or> makedirs w (dirname (build_log_path w cfg)) = None)
            \<and> loaded_token w cfg \<noteq> [] \<and> loaded_channel w cfg \<noteq> [])"
    and "slack_token (snd (init_from_config w s)) = loaded_token w cfg"
    and "channel_name (snd (init_from_config w s)) = loaded_channel w cfg"
    and "files (snd (init_from_config w s)) = files s"
  using cfg load_config_exists [OF cfg]
  by (auto simp: init_from_config_def ensure_config_exists_present Let_def
        loaded_token_def loaded_channel_def split: option.splits)

subsection \<open>Runs that reach the notification stage\<close>

lemma sdk_quiet:
  "filter is_notification (trace (snd (ensure_slack_sdk_installed w log s)))
     = filter is_notification (trace s)"
  "slack_token (snd (ensure_slack_sdk_installed w log s)) = slack_token s"
  "channel_name (snd (ensure_slack_sdk_installed w log s)) = channel_name s"
  by (simp_all add: ensure_slack_sdk_installed_def Let_def
        split: option.splits sum.splits exn.splits prod.splits)

lemma main_notification_stage:
  assumes r: "reaches_notification w s"
  shows "\<exists>s9. slack_token s9 = slack_token (snd (init_from_config w s))
           \<and> channel_name s9 = channel_name (snd (init_from_config w s))
           \<and> filter is_notification (trace s9)
               = filter is_notification (trace (snd (init_from_config w s)))
           \<and> main w s =
               (case notify_slack w (slack_message w) s9 of
                  (Inl e, s10) \<Rightarrow> (Inl e, s10)
                | (Inr ok, s10) \<Rightarrow>
                    (Inr (), notify_macos w (u ''DaVinci Resolve'') (slack_message w)
                       (log (if ok then u ''Deliver hook: done (Slack OK)''
                             else u ''Deliver hook: done (Slack FAILED)'') s10)))"
proof -
  obtain s1 where i: "init_from_config w s = (True, s1)"
    using r by (cases "init_from_config w s") (simp add: reaches_notification_def)
  obtain s2 where d: "ensure_slack_sdk_installed w log s1 = (True, s2)"
    using r i by (cases "ensure_slack_sdk_installed w log s1") (simp add: reaches_notification_def)
  obtain h where h: "gethostname w = Inr h"
    using r by (cases "gethostname w") (simp_all add: reaches_notification_def)
  obtain p where p: "platform_platform w = Inr p"
    using r by (cases "platform_platform w") (simp_all add: reaches_notification_def)
  have g: "get_resolve w" "GetProjectManager w = Inr True" "GetCurrentProject w = Inr True"
    using r by (simp_all add: reaches_notification_def)
  have q: "filter is_notification (trace s2) = filter is_notification (trace s1)"
    "slack_token s2 = slack_token s1" "channel_name s2 = channel_name s1"
    using sdk_quiet [of w s1] d by simp_all
  define s8 where "s8 =
    log (u ''Trigger globals: job='' @ py_repr (repr_str w) (job_global w)
         @ u '' status='' @ py_repr (repr_str w) (status_global w)
         @ u '' error='' @ py_repr (repr_str w) (error_global w))
     (log (u ''Log path: '' @ LOG_PATH s2)
       (log (u ''Config path: '' @ CONFIG_PATH w)
         (log (u ''Host: '' @ h @ u '' | OS: '' @ p)
           (log (u ''Python: '' @ python_version w @ u '' ('' @ sys_executable w @ u '')'')
             (log (u ''Deliver hook: start'') s2)))))"
  define s9 where "s9 = log (u ''Slack message: '' @ slack_message w) s8"
  have m: "main w s =
      (case notify_slack w (slack_message w) s9 of
         (Inl e, s10) \<Rightarrow> (Inl e, s10)
       | (Inr ok, s10) \<Rightarrow>
           (Inr (), notify_macos w (u ''DaVinci Resolve'') (slack_message w)
              (log (if ok then u ''Deliver hook: done (Slack OK)''
                    else u ''Deliver hook: done (Slack FAILED)'') s10)))"
    by (simp add: main_def i d h p g Let_def get_globals_def slack_message_def s8_def s9_def
          split: prod.splits sum.splits)
  have "slack_token s9 = slack_token (snd (init_from_config w s))"
    "channel_name s9 = channel_name (snd (init_from_config w s))"
    "filter is_notification (trace s9)
       = filter is_notification (trace (snd (init_from_config w s)))"
    by (simp_all add: s9_def s8_def q i)
  with m show ?thesis by blast
qed

subsection \<open>The notifier\<close>

lemma dropWhile_snoc_nonempty: "\<not> P a \<Longrightarrow> dropWhile P (ys @ [a]) \<noteq> []"
  by (induction ys) auto

lemma strip_nonempty: "s \<noteq> [] \<Longrightarrow> \<not> is_space (hd s) \<Longrightarrow> strip s \<noteq> []"
  by (cases s) (simp_all add: strip_def dropWhile_snoc_nonempty)

lemma texts_distinct:
  "configured_text \<noteq> template_text" "blank_token_text \<noteq> template_text"
  "blank_token_text \<noteq> configured_text"
  by (simp_all add: configured_text_def template_text_def blank_token_text_def quoted_def)

lemma texts_not_blank:
  "strip template_text \<noteq> []" "strip configured_text \<noteq> []" "strip blank_token_text \<noteq> []"
  by (rule strip_nonempty;
      simp add: configured_text_def template_text_def blank_token_text_def is_space_def)+

lemma notify_slack_returns:
  "import_WebClient w \<noteq> None \<or> WebClient_new w (slack_token s) = None \<Longrightarrow>
   \<exists>b. fst (notify_slack w message s) = Inr b"
  by (auto simp: notify_slack_def Let_def split: option.splits post_outcome.splits)

lemma notify_slack_quotes_token:
  "import_WebClient w = None \<Longrightarrow> WebClient_new w (slack_token s) = Some e \<Longrightarrow>
   notify_slack w message s = (Inl e, emit (WebClientNew (slack_token s)) s)"
  by (simp add: notify_slack_def Let_def)

lemma main_client_failure:
  assumes r: "reaches_notification w s"
    and i: "import_WebClient w = None"
    and c: "WebClient_new w (slack_token (snd (init_from_config w s))) = Some e"
  shows "fst (main w s) = Inl e"
    and "filter is_notification (trace (snd (main w s)))
         = filter is_notification (trace s)
           @ [WebClientNew (slack_token (snd (init_from_config w s)))]"
proof -
  from main_notification_stage [OF r] obtain s9 where
    t: "slack_token s9 = slack_token (snd (init_from_config w s))"
    and f: "filter is_notification (trace s9)
              = filter is_notification (trace (snd (init_from_config w s)))"
    and m: "main w s =
               (case notify_slack w (slack_message w) s9 of
                  (Inl e, s10) \<Rightarrow> (Inl e, s10)
                | (Inr ok, s10) \<Rightarrow>
                    (Inr (), notify_macos w (u ''DaVinci Resolve'') (slack_message w)
                       (log (if ok then u ''Deliver hook: done (Slack OK)''
                             else u ''Deliver hook: done (Slack FAILED)'') s10)))"
    by blast
  have n: "notify_slack w (slack_message w) s9 = (Inl e, emit (WebClientNew (slack_token s9)) s9)"
    using i c t by (simp add: notify_slack_quotes_token)
  show "fst (main w s) = Inl e"
    by (simp add: m n)
  show "filter is_notification (trace (snd (main w s)))
         = filter is_notification (trace s)
           @ [WebClientNew (slack_token (snd (init_from_config w s)))]"
    by (simp add: m n f t init_from_config_quiet)
qed

lemma main_notifies_locally:
  assumes r: "reaches_notification w s"
    and c: "import_WebClient w \<noteq> None
            \<or> WebClient_new w (slack_token (snd (init_from_config w s))) = None"
  shows "fst (main w s) = Inr ()"
    and "\<exists>sc. Osascript sc \<in> set (trace (snd (main w s)))"
proof -
  from main_notification_stage [OF r] obtain s9 where
    t: "slack_token s9 = slack_token (snd (init_from_config w s))"
    and m: "main w s =
               (case notify_slack w (slack_message w) s9 of
                  (Inl e, s10) \<Rightarrow> (Inl e, s10)
                | (Inr ok, s10) \<Rightarrow>
                    (Inr (), notify_macos w (u ''DaVinci Resolve'') (slack_message w)
                       (log (if ok then u ''Deliver hook: done (Slack OK)''
                             else u ''Deliver hook: done (Slack FAILED)'') s10)))"
    by blast
  from c t obtain b where "fst (notify_slack w (slack_message w) s9) = Inr b"
    using notify_slack_returns [of w s9 "slack_message w"] by auto
  then obtain s10 where n: "notify_slack w (slack_message w) s9 = (Inr b, s10)"
    by (cases "notify_slack w (slack_message w) s9") simp
  show "fst (main w s) = Inr ()"
    by (simp add: m n)
  show "\<exists>sc. Osascript sc \<in> set (trace (snd (main w s)))"
    by (auto simp: m n notify_macos_def Let_def split: option.splits)
qed

subsection \<open>The concrete world\<close>

lemma run_script_notifications:
  "filter is_notification (trace (run_script w s))
   = filter is_notification (trace (snd (main w (s\<lparr>slack_token := [], channel_name := []\<rparr>))))"
  by (simp add: run_script_def Let_def split: prod.splits sum.splits)

lemma run_script_files_after_abort:
  "fst (init_from_config w (s\<lparr>slack_token := [], channel_name := []\<rparr>)) = False \<Longrightarrow>
   run_script w s = snd (init_from_config w (s\<lparr>slack_token := [], channel_name := []\<rparr>))"
  by (simp add: run_script_def Let_def main_after_abort)

lemma demo_fs [simp]:
  "makedirs demo_world p = None" "open_write demo_world p = None" "open_read demo_world p = None"
  "makedirs broken_client_world p = None" "open_read broken_client_world p = None"
  "json_dump demo_world (PDict template) = template_text"
  "json_loads demo_world template_text = Inr (PDict template)"
  "json_loads demo_world configured_text = Inr (PDict configured_cfg)"
  "json_loads demo_world blank_token_text = Inr (PDict blank_token_cfg)"
  "json_loads broken_client_world configured_text = Inr (PDict configured_cfg)"
  "repr_str demo_world = ascii_repr" "repr_str broken_client_world = ascii_repr"
  by (simp_all add: demo_world_def broken_client_world_def texts_distinct)

lemma demo_host [simp]:
  "import_slack_sdk demo_world = None" "import_slack_sdk broken_client_world = None"
  "gethostname broken_client_world = Inr (u ''studio'')"
  "platform_platform broken_client_world = Inr (u ''macOS-14.5-arm64'')"
  "resolve_global broken_client_world"
  "GetProjectManager broken_client_world = Inr True"
  "GetCurrentProject broken_client_world = Inr True"
  "import_WebClient broken_client_world = None"
  "WebClient_new broken_client_world t = Some (Exn (u ''client construction failed''))"
  "GetRenderJobList demo_world = Inr (Some demo_jobs)"
  by (simp_all add: demo_world_def broken_client_world_def)

lemma demo_config_path [simp]: "CONFIG_PATH broken_client_world = CONFIG_PATH demo_world"
  by (simp add: CONFIG_PATH_def broken_client_world_def)

lemma demo_states [simp]:
  "files fresh_state p = None" "trace fresh_state = []"
  "files configured_state (CONFIG_PATH demo_world) = Some configured_text"
  "trace configured_state = []"
  "configured_state\<lparr>slack_token := [], channel_name := []\<rparr> = configured_state"
  "files blank_token_state (CONFIG_PATH demo_world) = Some blank_token_text"
  "trace blank_token_state = []"
  by (simp_all add: fresh_state_def configured_state_def blank_token_state_def
        initial_state_def no_files_def)

lemma demo_load:
  "load_config broken_client_world (CONFIG_PATH demo_world) configured_state = Inr configured_cfg"
  "load_config demo_world (CONFIG_PATH demo_world) blank_token_state = Inr blank_token_cfg"
  by (simp_all add: load_config_def texts_not_blank)

lemma demo_credentials:
  "loaded_token broken_client_world configured_cfg = u ''xoxb-1''"
  "loaded_channel broken_client_world configured_cfg = u ''C123''"
  "loaded_token demo_world blank_token_cfg = []"
  "loaded_token w template = u ''xoxb-REPLACE_WITH_YOUR_TOKEN''"
  "loaded_channel w template = u ''CXXXXXXXX''"
  by (simp_all add: loaded_token_def loaded_channel_def configured_cfg_def blank_token_cfg_def
        template_def dict_get_default_def py_str_def strip_def is_space_def)

lemma demo_reaches: "reaches_notification broken_client_world configured_state"
  using init_from_config_loaded(1) [of broken_client_world configured_state configured_cfg]
  by (simp add: reaches_notification_def demo_load demo_credentials
        ensure_slack_sdk_installed_def get_resolve_def)

lemma demo_token:
  "slack_token (snd (init_from_config broken_client_world configured_state)) = u ''xoxb-1''"
  using init_from_config_loaded(2) [of broken_client_world configured_state configured_cfg]
  by (simp add: demo_load demo_credentials)

text \<open>
  Claim C2. With a client whose constructor raises, \<open>notify_slack\<close> does not return
  \<open>False\<close>: the exception leaves it, for every message and every state.
\<close>

theorem notify_slack_raises_on_client_construction:
  "fst (notify_slack broken_client_world message s) = Inl (Exn (u ''client construction failed''))"
  by (simp add: notify_slack_def Let_def)

text \<open>
  Claim C4. In a run that reaches the notification stage with a client whose constructor
  raises, the exception leaves \<open>main\<close>, and the construction of the client is the only
  notifying call of the run: \<open>osascript\<close> is not called, by \<open>main\<close> or by the whole script.
\<close>

theorem main_skips_local_notification:
  "reaches_notification broken_client_world configured_state
   \<and> fst (main broken_client_world configured_state) = Inl (Exn (u ''client construction failed''))
   \<and> filter is_notification (trace (snd (main broken_client_world configured_state)))
       = [WebClientNew (u ''xoxb-1'')]
   \<and> filter is_notification (trace (run_script broken_client_world configured_state))
       = [WebClientNew (u ''xoxb-1'')]"
  using main_client_failure [OF demo_reaches, of "Exn (u ''client construction failed'')"]
  by (simp add: demo_reaches demo_token run_script_notifications)

subsection \<open>The template configuration\<close>

lemma init_from_config_template:
  assumes f: "files s' (CONFIG_PATH w) = Some (json_dump w (PDict template))"
    and r: "open_read w (CONFIG_PATH w) = None"
    and b: "strip (json_dump w (PDict template)) \<noteq> []"
    and j: "json_loads w (json_dump w (PDict template)) = Inr (PDict template)"
  shows "fst (init_from_config w s') =
           (isdir w (dirname (build_log_path w template))
            \<or> makedirs w (dirname (build_log_path w template)) = None)"
    and "slack_token (snd (init_from_config w s')) = u ''xoxb-REPLACE_WITH_YOUR_TOKEN''"
    and "channel_name (snd (init_from_config w s')) = u ''CXXXXXXXX''"
proof -
  have l: "load_config w (CONFIG_PATH w) s' = Inr template"
    using f r b j by (simp add: load_config_def)
  show "fst (init_from_config w s') =
           (isdir w (dirname (build_log_path w template))
            \<or> makedirs w (dirname (build_log_path w template)) = None)"
    using init_from_config_loaded(1) [OF l] by (simp add: demo_credentials)
  show "slack_token (snd (init_from_config w s')) = u ''xoxb-REPLACE_WITH_YOUR_TOKEN''"
    using init_from_config_loaded(2) [OF l] by (simp add: demo_credentials)
  show "channel_name (snd (init_from_config w s')) = u ''CXXXXXXXX''"
    using init_from_config_loaded(3) [OF l] by (simp add: demo_credentials)
qed

lemma init_from_config_writes_template:
  "files s (CONFIG_PATH w) = None \<Longrightarrow> makedirs w (dirname (CONFIG_PATH w)) = None \<Longrightarrow>
   open_write w (CONFIG_PATH w) = None \<Longrightarrow>
   files (snd (init_from_config w s)) (CONFIG_PATH w) = Some (json_dump w (PDict template))"
  by (simp add: init_from_config_fresh ensure_config_exists_written)

lemma first_run_leaves_template:
  "files (run_script demo_world fresh_state) (CONFIG_PATH demo_world) = Some template_text"
proof -
  let ?s0 = "fresh_state\<lparr>slack_token := [], channel_name := []\<rparr>"
  have n: "files ?s0 (CONFIG_PATH demo_world) = None" by simp
  then have "fst (init_from_config demo_world ?s0) = False"
    by (simp add: init_from_config_fresh)
  then have "run_script demo_world fresh_state = snd (init_from_config demo_world ?s0)"
    by (rule run_script_files_after_abort)
  then show ?thesis
    using init_from_config_writes_template [OF n] by simp
qed

text \<open>
  Claim C1 as stated fails. The first run of the script writes the template; a later run,
  which finds that file unedited, loads it, and \<open>init_from_config\<close> returns \<open>True\<close>.
\<close>

theorem template_accepted_counterexample:
  "files (run_script demo_world fresh_state) (CONFIG_PATH demo_world)
     = Some (json_dump demo_world (PDict template))
   \<and> fst (init_from_config demo_world
            (initial_state demo_world (files (run_script demo_world fresh_state)))) = True"
  using init_from_config_template(1)
          [of "initial_state demo_world (files (run_script demo_world fresh_state))" demo_world]
  by (simp add: first_run_leaves_template initial_state_def texts_not_blank)

text \<open>
  Claim C1, amended. A run that finds no configuration file has \<open>init_from_config\<close> return
  \<open>False\<close> without loading anything, and leaves the template on disk when the directory
  and the file can be written. A run that finds the unedited template, readable and parsed
  back to the template dictionary, accepts the placeholders: \<open>slack_token\<close> and
  \<open>channel_name\<close> take the two placeholder values, and \<open>init_from_config\<close> returns \<open>True\<close>
  exactly when the log directory exists or can be created.
\<close>

theorem template_config_round_trip:
  "(files s (CONFIG_PATH w) = None \<longrightarrow>
      fst (init_from_config w s) = False
      \<and> (makedirs w (dirname (CONFIG_PATH w)) = None \<and> open_write w (CONFIG_PATH w) = None
         \<longrightarrow> files (snd (init_from_config w s)) (CONFIG_PATH w)
               = Some (json_dump w (PDict template))))
   \<and> (files s' (CONFIG_PATH w) = Some (json_dump w (PDict template))
      \<and> open_read w (CONFIG_PATH w) = None
      \<and> strip (json_dump w (PDict template)) \<noteq> []
      \<and> json_loads w (json_dump w (PDict template)) = Inr (PDict template)
      \<longrightarrow> fst (init_from_config w s') =
            (isdir w (dirname (build_log_path w template))
             \<or> makedirs w (dirname (build_log_path w template)) = None)
          \<and> slack_token (snd (init_from_config w s')) = u ''xoxb-REPLACE_WITH_YOUR_TOKEN''
          \<and> channel_name (snd (init_from_config w s')) = u ''CXXXXXXXX'')"
  by (simp add: init_from_config_fresh ensure_config_exists_written
        init_from_config_template)

text \<open>The two runs of C1 in the concrete world.\<close>

theorem template_config_round_trip_witness:
  "files fresh_state (CONFIG_PATH demo_world) = None
   \<and> fst (init_from_config demo_world fresh_state) = False
   \<and> files (snd (init_from_config demo_world fresh_state)) (CONFIG_PATH demo_world)
       = Some template_text
   \<and> fst (init_from_config demo_world
            (initial_state demo_world (files (snd (init_from_config demo_world fresh_state)))))
   \<and> slack_token (snd (init_from_config demo_world
            (initial_state demo_world (files (snd (init_from_config demo_world fresh_state))))))
       = u ''xoxb-REPLACE_WITH_YOUR_TOKEN''"
  using template_config_round_trip [of fresh_state demo_world
          "initial_state demo_world (files (snd (init_from_config demo_world fresh_state)))"]
  by (simp add: initial_state_def texts_not_blank)

text \<open>C6 on a configuration whose token is two spaces.\<close>

theorem missing_credentials_abort_witness:
  "load_config demo_world (CONFIG_PATH demo_world) blank_token_state = Inr blank_token_cfg
   \<and> map_of blank_token_cfg (u ''slack_token'') = Some (PStr (u ''  ''))
   \<and> strip (u ''  '') = []
   \<and> fst (init_from_config demo_world blank_token_state) = False
   \<and> fst (main demo_world blank_token_state) = Inr ()
   \<and> filter is_notification (trace (snd (main demo_world blank_token_state))) = []
   \<and> filter is_notification (trace (run_script demo_world blank_token_state)) = []"
  using missing_credentials_abort [of demo_world blank_token_state blank_token_cfg]
  by (simp add: demo_load blank_token_cfg_def py_str_def strip_def is_space_def)

text \<open>C7 on the job list of the concrete world, and on hosts that fail.\<close>

theorem get_job_details_first_match_witness:
  "get_job_details demo_world (PStr (u ''42'')) = job42
   \<and> get_job_details demo_world (PStr (u ''99'')) = PNone
   \<and> get_job_details (demo_world\<lparr>GetRenderJobList := Inr None\<rparr>) (PStr (u ''42'')) = PNone
   \<and> get_job_details (demo_world\<lparr>GetRenderJobList := Inl (Exn (u ''host gone''))\<rparr>)
        (PStr (u ''42'')) = PNone
   \<and> get_detailed_status (demo_world\<lparr>GetRenderJobStatus := (\<lambda>j. Inl (Exn (u ''host gone'')))\<rparr>)
        (PStr (u ''42'')) = PNone"
  using get_job_details_first_match [of demo_world "[PNone, PDict [(u ''JobId'', PStr (u ''7''))]]"
          job42 "[PDict [(u ''JobId'', PStr (u ''42'')), (u ''TimelineName'', PStr (u ''Late''))]]"
          "PStr (u ''42'')" "[]" "Exn []" "Exn []"]
        get_job_details_first_match [of demo_world "[]" PNone "[]" "PStr (u ''99'')" demo_jobs
          "Exn []" "Exn []"]
        get_job_details_first_match [of "demo_world\<lparr>GetRenderJobList := Inr None\<rparr>" "[]" PNone
          "[]" "PStr (u ''42'')" "[]" "Exn []" "Exn []"]
        get_job_details_first_match [of "demo_world\<lparr>GetRenderJobList := Inl (Exn (u ''host gone''))\<rparr>"
          "[]" PNone "[]" "PStr (u ''42'')" "[]" "Exn (u ''host gone'')" "Exn []"]
        get_job_details_first_match
          [of "demo_world\<lparr>GetRenderJobStatus := (\<lambda>j. Inl (Exn (u ''host gone'')))\<rparr>"
          "[]" PNone "[]" "PStr (u ''42'')" "[]" "Exn []" "Exn (u ''host gone'')"]
  by (simp add: demo_jobs_def job42_def matches_job_def record_get_def dict_get_def)

text \<open>C9 on a list that starts with \<open>None\<close> and a string.\<close>

theorem get_job_details_skips_malformed_witness:
  "isl (record_get PNone (u ''JobId'')) \<and> isl (record_get (PStr (u ''junk'')) (u ''JobId''))
   \<and> get_job_details (demo_world\<lparr>GetRenderJobList := Inr (Some [PNone, PStr (u ''junk''), job42])\<rparr>)
        (PStr (u ''42'')) = job42"
  using get_job_details_skips_malformed
          [of "demo_world\<lparr>GetRenderJobList := Inr (Some [PNone, PStr (u ''junk''), job42])\<rparr>"
              "[PNone, PStr (u ''junk'')]" job42 "[]" "PStr (u ''42'')" "PStr (u ''42'')"]
  by (simp add: job42_def record_get_def dict_get_def type_name_def)

text \<open>C8 on three configurations.\<close>

theorem build_log_path_shape_witness:
  "build_log_path demo_world configured_cfg
     = u ''/Users/editor/Desktop/resolve_slack_deliver_2026-01-15.log''
   \<and> build_log_path demo_world
         [(u ''log_directory'', PStr (u ''/Volumes/Logs/'')), (u ''slack_token'', PInt 5)]
     = u ''/Volumes/Logs/resolve_slack_deliver_2026-01-15.log''
   \<and> build_log_path demo_world [(u ''log_directory'', PStr (u ''  ''))]
     = u ''/Users/editor/Desktop/resolve_slack_deliver_2026-01-15.log''"
  using build_log_path_shape [of demo_world configured_cfg]
        build_log_path_shape [of demo_world
          "[(u ''log_directory'', PStr (u ''/Volumes/Logs/'')), (u ''slack_token'', PInt 5)]"]
        build_log_path_shape [of demo_world "[(u ''log_directory'', PStr (u ''  ''))]"]
  by (simp add: configured_cfg_def demo_world_def home_expand_def strip_def is_space_def)

text \<open>C10 on the inputs that are all \<open>None\<close>, and on a status with a space in it.\<close>

theorem build_slack_message_starts_with_status_witness:
  "pick_status ascii_repr PNone PNone = u ''Unknown''
   \<and> build_slack_message ascii_repr PNone PNone PNone PNone PNone = u ''Unknown''
   \<and> build_slack_message ascii_repr (PStr (u ''P'')) (PStr (u ''In Progress'')) PNone PNone PNone
       = u ''In Progress [P]''"
  using build_slack_message_starts_with_status [of ascii_repr PNone PNone PNone PNone PNone]
        build_slack_message_starts_with_status
          [of ascii_repr "PStr (u ''P'')" "PStr (u ''In Progress'')" PNone PNone PNone]
  by (simp add: build_slack_message_def pick_status_def py_str_def)

end
